theory Spec2Isabelle
  imports Complex_Main "HOL-Library.Sublist"
begin

section \<open>cleanup\_service: the storage janitor\<close>

text \<open>
  The file system, as far as \<^verbatim>\<open>cleanup_service.py\<close> looks at it. A directory holds a
  list of nodes, in the order \<^verbatim>\<open>os.listdir\<close> reports them. A node is a file or a
  sub-directory. For a file the model keeps what the code asks the operating system:
  its size (\<^verbatim>\<open>os.path.getsize\<close>), its modification time (\<^verbatim>\<open>os.path.getmtime\<close>),
  whether it is a symbolic link (\<^verbatim>\<open>os.path.islink\<close>), and whether \<^verbatim>\<open>os.remove\<close>
  raises \<^verbatim>\<open>OSError\<close> on it (a permission error, say). Times are seconds since the
  epoch, taken as integers; Python holds them in floats.
\<close>

record file_info =
  f_size :: nat
  f_mtime :: int
  f_link :: bool
  f_locked :: bool

datatype node = File string file_info | Dir string "node list"

type_synonym filesystem = "string \<rightharpoonup> node list"

datatype os_error = OSError

fun isfile :: "node \<Rightarrow> bool" where
  "isfile (File n i) = True"
| "isfile (Dir n cs) = False"

fun getmtime :: "node \<Rightarrow> int" where
  "getmtime (File n i) = f_mtime i"
| "getmtime (Dir n cs) = 0"

fun remove :: "node \<Rightarrow> os_error + unit" where
  "remove (File n i) = (if f_locked i then Inl OSError else Inr ())"
| "remove (Dir n cs) = Inl OSError"

text \<open>
  \<^verbatim>\<open>get_directory_size\<close>: \<^verbatim>\<open>os.walk\<close> visits the directory and every directory below
  it; the sizes of the files that are not symbolic links are added up, and the sum of
  bytes is divided by \<^verbatim>\<open>1024 * 1024\<close>. A path that is no directory yields no entries.
\<close>

fun walk_size :: "node \<Rightarrow> nat" where
  "walk_size (File n i) = (if \<not> f_link i then f_size i else 0)"
| "walk_size (Dir n cs) = sum_list (map walk_size cs)"

definition get_directory_size :: "filesystem \<Rightarrow> string \<Rightarrow> real" where
  "get_directory_size fs path =
     (let total_size = (case fs path of None \<Rightarrow> 0 | Some es \<Rightarrow> sum_list (map walk_size es))
      in real total_size / (1024 * 1024))"

text \<open>
  The body of the loop of \<^verbatim>\<open>clear_old_files\<close> for one entry, inside its
  \<^verbatim>\<open>try\<close>: \<open>Inr True\<close> when the file was removed, \<open>Inr False\<close> when the
  condition did not hold, \<open>Inl OSError\<close> when \<^verbatim>\<open>os.remove\<close> raised.
\<close>

definition remove_if_old :: "int \<Rightarrow> node \<Rightarrow> os_error + bool" where
  "remove_if_old cutoff e =
     (if isfile e \<and> getmtime e < cutoff
      then (case remove e of Inl err \<Rightarrow> Inl err | Inr u \<Rightarrow> Inr True)
      else Inr False)"

text \<open>
  The loop over \<^verbatim>\<open>os.listdir(folder_path)\<close>. It returns the entries left in the
  directory and the counter. The \<^verbatim>\<open>except OSError\<close> branch prints and goes on with
  the next entry.
\<close>

fun sweep :: "int \<Rightarrow> node list \<Rightarrow> nat \<Rightarrow> node list \<times> nat" where
  "sweep cutoff [] deleted_files_count = ([], deleted_files_count)"
| "sweep cutoff (e # es) deleted_files_count =
     (case remove_if_old cutoff e of
        Inr True \<Rightarrow> sweep cutoff es (deleted_files_count + 1)
      | Inr False \<Rightarrow>
          (let (kept, n) = sweep cutoff es deleted_files_count in (e # kept, n))
      | Inl err \<Rightarrow>
          (let (kept, n) = sweep cutoff es deleted_files_count in (e # kept, n)))"

text \<open>
  \<^verbatim>\<open>clear_old_files(folder_path, max_age_hours)\<close>, with the reading of
  \<^verbatim>\<open>time.time()\<close> as the argument \<open>now\<close>. The result is the returned count and the
  file system afterwards.
\<close>

definition clear_old_files :: "int \<Rightarrow> filesystem \<Rightarrow> string \<Rightarrow> int \<Rightarrow> nat \<times> filesystem" where
  "clear_old_files now fs folder_path max_age_hours =
     (case fs folder_path of
        None \<Rightarrow> (0, fs)
      | Some es \<Rightarrow>
          (let cutoff = now - (max_age_hours * 60 * 60);
               (kept, n) = sweep cutoff es 0
           in (n, fs(folder_path \<mapsto> kept))))"

text \<open>
  \<^verbatim>\<open>int(s)\<close> for a string, as far as the configuration needs it: white space
  around the literal is dropped, a sign may come first, then decimal digits, where a
  single underscore may stand between two digits. Everything else raises
  \<^verbatim>\<open>ValueError\<close>.
\<close>

datatype config_error = ValueError

definition is_space :: "char \<Rightarrow> bool" where
  "is_space c =
     (c \<in> set [CHR 0x09, CHR 0x0A, CHR 0x0B, CHR 0x0C, CHR 0x0D,
                CHR 0x1C, CHR 0x1D, CHR 0x1E, CHR 0x1F, CHR 0x20])"

definition strip :: "string \<Rightarrow> string" where
  "strip s = rev (dropWhile is_space (rev (dropWhile is_space s)))"

definition is_digit :: "char \<Rightarrow> bool" where
  "is_digit c = (c \<in> set ''0123456789'')"

definition digit_value :: "char \<Rightarrow> int" where
  "digit_value c = int (of_char c) - 48"

fun more_digits :: "int \<Rightarrow> string \<Rightarrow> int option" where
  "more_digits acc [] = Some acc"
| "more_digits acc [c] = (if is_digit c then Some (acc * 10 + digit_value c) else None)"
| "more_digits acc (c # d # cs) =
     (if is_digit c then more_digits (acc * 10 + digit_value c) (d # cs)
      else if c = CHR ''_'' \<and> is_digit d then more_digits (acc * 10 + digit_value d) cs
      else None)"

definition digits :: "string \<Rightarrow> int option" where
  "digits s =
     (case s of
        [] \<Rightarrow> None
      | c # cs \<Rightarrow> if is_digit c then more_digits (digit_value c) cs else None)"

definition py_int :: "string \<Rightarrow> config_error + int" where
  "py_int s =
     (let t = strip s;
          magnitude = (case t of
                         [] \<Rightarrow> None
                       | c # cs \<Rightarrow>
                           if c = CHR ''-'' then map_option uminus (digits cs)
                           else if c = CHR ''+'' then digits cs
                           else digits t)
      in case magnitude of None \<Rightarrow> Inl ValueError | Some v \<Rightarrow> Inr v)"

text \<open>
  \<^verbatim>\<open>run_cleanup_if_needed\<close>. \<open>MAX_STORAGE_MB\<close> is what \<^verbatim>\<open>os.getenv\<close> gives for
  the variable, \<open>None\<close> when it is not set; then the default 500 is taken. The
  ceiling is read first, and a value that is no integer literal raises there. \<open>t1\<close>
  and \<open>t2\<close> are the clock readings of the two calls of the reaper. Beside the file
  system the model returns the calls of \<^verbatim>\<open>clear_old_files\<close> that were made, in
  order, each with its folder and its age threshold.
\<close>

definition makedirs :: "filesystem \<Rightarrow> string \<Rightarrow> filesystem" where
  "makedirs fs path = (case fs path of None \<Rightarrow> fs(path \<mapsto> []) | Some es \<Rightarrow> fs)"

definition uploads_path :: string where
  "uploads_path = ''static/uploads''"

definition edited_path :: string where
  "edited_path = ''static/edited_images''"

definition max_storage_mb :: "string option \<Rightarrow> config_error + int" where
  "max_storage_mb MAX_STORAGE_MB =
     (case MAX_STORAGE_MB of None \<Rightarrow> Inr 500 | Some s \<Rightarrow> py_int s)"

definition run_cleanup_if_needed ::
  "string option \<Rightarrow> int \<Rightarrow> int \<Rightarrow> filesystem \<Rightarrow>
   config_error + (filesystem \<times> (string \<times> int) list)" where
  "run_cleanup_if_needed MAX_STORAGE_MB t1 t2 fs =
     (case max_storage_mb MAX_STORAGE_MB of
        Inl e \<Rightarrow> Inl e
      | Inr max_storage \<Rightarrow>
          (let cleanup_age_hours = 24;
               fs1 = makedirs fs uploads_path;
               fs2 = makedirs fs1 edited_path;
               uploads_size = get_directory_size fs2 uploads_path;
               edited_size = get_directory_size fs2 edited_path;
               total_size = uploads_size + edited_size
           in if total_size > real_of_int max_storage
              then (let (uploads_cleared, fs3) =
                          clear_old_files t1 fs2 uploads_path cleanup_age_hours;
                        (edited_cleared, fs4) =
                          clear_old_files t2 fs3 edited_path cleanup_age_hours
                    in Inr (fs4, [(uploads_path, cleanup_age_hours),
                                  (edited_path, cleanup_age_hours)]))
              else Inr (fs2, [])))"

text \<open>
  The vocabulary of the specification: an entry has expired at a cutoff when it is a
  file modified strictly before it; it is an old regular file when it has expired at
  \<open>now\<close> minus the maximum age, the hours counted in seconds; its deletion fails when
  \<^verbatim>\<open>os.remove\<close> raises on it.
\<close>

definition expired :: "int \<Rightarrow> node \<Rightarrow> bool" where
  "expired cutoff e = (case e of File n i \<Rightarrow> f_mtime i < cutoff | Dir n cs \<Rightarrow> False)"

definition old_regular_file :: "int \<Rightarrow> int \<Rightarrow> node \<Rightarrow> bool" where
  "old_regular_file now max_age_hours e = expired (now - max_age_hours * 3600) e"

definition deletion_fails :: "node \<Rightarrow> bool" where
  "deletion_fails e = (case e of File n i \<Rightarrow> f_locked i | Dir n cs \<Rightarrow> False)"

text \<open>
  The vocabulary of the specification of the accountant and of the policy: the files
  below a node, at any depth; the bytes used by a list of entries, the sizes of the
  files below them that are no symbolic links; the entries of a path, none when it is
  no directory; what a call of the reaper at a time leaves of a list of entries.
\<close>

fun files_below :: "node \<Rightarrow> file_info list" where
  "files_below (File n i) = [i]"
| "files_below (Dir n cs) = concat (map files_below cs)"

definition bytes_used :: "node list \<Rightarrow> nat" where
  "bytes_used es =
     sum_list (map f_size (filter (\<lambda>i. \<not> f_link i) (concat (map files_below es))))"

definition entries :: "filesystem \<Rightarrow> string \<Rightarrow> node list" where
  "entries fs path = (case fs path of None \<Rightarrow> [] | Some es \<Rightarrow> es)"

definition survivors :: "int \<Rightarrow> int \<Rightarrow> node list \<Rightarrow> node list" where
  "survivors now max_age_hours es =
     filter (\<lambda>e. \<not> old_regular_file now max_age_hours e \<or> deletion_fails e) es"

definition locked_dir :: "node list" where
  "locked_dir =
     [File ''a.png'' \<lparr>f_size = 10, f_mtime = 1000, f_link = False, f_locked = True\<rparr>,
      File ''b.png'' \<lparr>f_size = 10, f_mtime = 2000, f_link = False, f_locked = False\<rparr>]"

definition empty_fs :: filesystem where
  "empty_fs = Map.empty"

definition mixed_dir :: "node list" where
  "mixed_dir =
     [File ''held.png'' \<lparr>f_size = 4, f_mtime = 99000, f_link = False, f_locked = True\<rparr>,
      File ''old.png'' \<lparr>f_size = 10, f_mtime = 1000, f_link = False, f_locked = False\<rparr>,
      Dir ''sub'' [File ''deep.png'' \<lparr>f_size = 5, f_mtime = 0, f_link = False, f_locked = False\<rparr>],
      File ''edge.png'' \<lparr>f_size = 7, f_mtime = 13600, f_link = False, f_locked = False\<rparr>]"

definition quota_fs :: filesystem where
  "quota_fs =
     [uploads_path \<mapsto>
        [File ''big.png'' \<lparr>f_size = 300 * 1048576, f_mtime = 1000, f_link = False, f_locked = False\<rparr>,
         File ''link.png'' \<lparr>f_size = 900 * 1048576, f_mtime = 99000, f_link = True, f_locked = False\<rparr>],
      edited_path \<mapsto>
        [Dir ''batch'' [File ''deep.png'' \<lparr>f_size = 200 * 1048576 + 1, f_mtime = 0, f_link = False, f_locked = False\<rparr>],
         File ''out.png'' \<lparr>f_size = 7, f_mtime = 2000, f_link = False, f_locked = False\<rparr>]]"

section \<open>reddit\_service: the post source resolver\<close>

text \<open>
  A post is the dictionary \<^verbatim>\<open>post_data\<close> that \<^verbatim>\<open>get_photoshop_request_posts\<close>
  builds, field by field. \<^verbatim>\<open>created_utc\<close> is a number of seconds, an integer here.
\<close>

record post =
  p_id :: string
  p_title :: string
  p_description :: string
  p_imageUrl :: string
  p_postUrl :: string
  p_created_utc :: int
  p_created_date :: string
  p_author :: string
  p_score :: int
  p_num_comments :: int
  p_subreddit :: string

text \<open>
  The exceptions the code meets: the three it names or provokes itself; any one the
  client of the live source raises while the listing is read, with its message; the
  one the constructor of the client raises for a missing setting; the two that
  reading the cache file raises past the handler of \<^verbatim>\<open>load_posts_from_cache\<close>; and
  the one of a failing write.
\<close>

datatype py_exn =
  AttributeError | KeyError | IndexError | ClientError string
  | MissingRequiredAttributeException | UnicodeDecodeError | TypeError | IOError

text \<open>
  A submission of the live source, with the attributes the code reads. \<open>s_url\<close> and
  \<open>s_preview\<close> are \<open>None\<close> when \<^verbatim>\<open>hasattr\<close> is false. The preview is a dictionary
  that may hold the key \<^verbatim>\<open>images\<close>, a list of dictionaries that may hold the key
  \<^verbatim>\<open>source\<close>, a dictionary that may hold the key \<^verbatim>\<open>url\<close>. \<open>s_author\<close> is
  \<open>None\<close> for a deleted author.
\<close>

type_synonym source_dict = "string option"
type_synonym image_dict = "source_dict option"
type_synonym preview_dict = "image_dict list option"

record submission =
  s_id :: string
  s_title :: string
  s_selftext :: string
  s_url :: "string option"
  s_preview :: "preview_dict option"
  s_permalink :: string
  s_created_utc :: int
  s_author :: "string option"
  s_score :: int
  s_num_comments :: int
  s_subreddit :: string

text \<open>
  The five environment variables; \<^verbatim>\<open>os.getenv\<close> gives \<open>None\<close> for an unset one.
  \<^verbatim>\<open>get_reddit_instance\<close> returns \<open>None\<close> unless the four it checks are set and
  not empty, and calls the constructor of the client otherwise. The constructor sends
  no request; it requires the user agent, which is not among the four, and raises when
  the keyword it is given for it is \<open>None\<close>.
\<close>

record credentials =
  REDDIT_CLIENT_ID :: "string option"
  REDDIT_CLIENT_SECRET :: "string option"
  REDDIT_USER_AGENT :: "string option"
  REDDIT_USERNAME :: "string option"
  REDDIT_PASSWORD :: "string option"

datatype reddit = Reddit credentials

definition truthy :: "string option \<Rightarrow> bool" where
  "truthy v = (case v of None \<Rightarrow> False | Some s \<Rightarrow> s \<noteq> [])"

definition praw_Reddit :: "credentials \<Rightarrow> py_exn + reddit" where
  "praw_Reddit c =
     (case REDDIT_USER_AGENT c of
        None \<Rightarrow> Inl MissingRequiredAttributeException
      | Some user_agent \<Rightarrow> Inr (Reddit c))"

definition get_reddit_instance :: "credentials \<Rightarrow> py_exn + reddit option" where
  "get_reddit_instance c =
     (if \<not> (truthy (REDDIT_CLIENT_ID c) \<and> truthy (REDDIT_CLIENT_SECRET c) \<and>
             truthy (REDDIT_USERNAME c) \<and> truthy (REDDIT_PASSWORD c))
      then Inr None
      else (case praw_Reddit c of Inl e \<Rightarrow> Inl e | Inr r \<Rightarrow> Inr (Some r)))"

text \<open>
  The cache file \<^verbatim>\<open>temp/reddit_posts.json\<close>. It is absent; or it cannot be opened or
  is no JSON text (\<^verbatim>\<open>IOError\<close>, \<^verbatim>\<open>JSONDecodeError\<close>: the two exceptions that
  \<^verbatim>\<open>load_posts_from_cache\<close> catches); or its bytes are no UTF-8 text
  (\<^verbatim>\<open>UnicodeDecodeError\<close>, which is not caught); or it holds a JSON document. The
  document is a list of posts, as the code writes it, or an object, or a string, or a
  scalar (a number, \<^verbatim>\<open>true\<close>, \<^verbatim>\<open>false\<close>, \<^verbatim>\<open>null\<close>), on which
  \<^verbatim>\<open>len(posts)\<close> raises \<^verbatim>\<open>TypeError\<close>. What is loaded is returned as it is.
\<close>

datatype json_doc =
  JsonPosts "post list" | JsonObject "(string \<times> string) list" | JsonString string | JsonScalar

datatype cache_file = Absent | Unreadable | Undecodable | Holds json_doc

definition load_posts_from_cache :: "cache_file \<Rightarrow> py_exn + json_doc" where
  "load_posts_from_cache f =
     (case f of
        Absent \<Rightarrow> Inr (JsonPosts [])
      | Unreadable \<Rightarrow> Inr (JsonPosts [])
      | Undecodable \<Rightarrow> Inl UnicodeDecodeError
      | Holds posts \<Rightarrow> (case posts of JsonScalar \<Rightarrow> Inl TypeError | _ \<Rightarrow> Inr posts))"

text \<open>The truth value Python gives to what was loaded: false for an empty container.\<close>

definition truthy_doc :: "json_doc \<Rightarrow> bool" where
  "truthy_doc d =
     (case d of
        JsonPosts ps \<Rightarrow> ps \<noteq> []
      | JsonObject kvs \<Rightarrow> kvs \<noteq> []
      | JsonString s \<Rightarrow> s \<noteq> []
      | JsonScalar \<Rightarrow> False)"

text \<open>
  \<^verbatim>\<open>save_posts_to_cache\<close>. The disk takes the write; or \<^verbatim>\<open>os.makedirs\<close> or
  \<^verbatim>\<open>open\<close> raises and the file is as before; or \<^verbatim>\<open>open\<close> has emptied the file
  and \<^verbatim>\<open>json.dump\<close> raises before the text is complete. The result is the exception,
  if any, and the cache file afterwards.
\<close>

datatype disk = Writable | WriteDenied | WriteInterrupted

definition save_posts_to_cache ::
  "disk \<Rightarrow> post list \<Rightarrow> cache_file \<Rightarrow> (py_exn + unit) \<times> cache_file" where
  "save_posts_to_cache d posts f =
     (case d of
        Writable \<Rightarrow> (Inr (), Holds (JsonPosts posts))
      | WriteDenied \<Rightarrow> (Inl IOError, f)
      | WriteInterrupted \<Rightarrow> (Inl IOError, Unreadable))"

text \<open>
  \<^verbatim>\<open>get_mock_posts\<close>. The clock reading and its ISO form are arguments; the code
  reads the clock once for each field.
\<close>

definition get_mock_posts :: "int \<Rightarrow> string \<Rightarrow> post list" where
  "get_mock_posts now now_iso =
     [\<lparr>p_id = ''mock_post_1'',
       p_title = ''[PAID] Can someone remove the person in the background?'',
       p_description = ''I love this photo of my dog, but the person walking behind ruins it. Can anyone help? Will tip!'',
       p_imageUrl = ''https://placehold.co/600x400/000000/FFFFFF?text=Sample+Image+1'',
       p_postUrl = ''#'',
       p_created_utc = now,
       p_created_date = now_iso,
       p_author = ''mock_user_1'',
       p_score = 152,
       p_num_comments = 25,
       p_subreddit = ''PhotoshopRequest''\<rparr>,
      \<lparr>p_id = ''mock_post_2'',
       p_title = ''Please restore this old photo of my grandparents'',
       p_description = ''This is the only photo I have of them together. It'' @ [CHR 0x27] @ ''s very faded and has some scratches. Thank you in advance!'',
       p_imageUrl = ''https://placehold.co/600x400/333333/FFFFFF?text=Sample+Image+2'',
       p_postUrl = ''#'',
       p_created_utc = now,
       p_created_date = now_iso,
       p_author = ''mock_user_2'',
       p_score = 89,
       p_num_comments = 12,
       p_subreddit = ''PhotoshopRequest''\<rparr>,
      \<lparr>p_id = ''mock_post_3'',
       p_title = ''Can you change the color of my car to blue?'',
       p_description = ''Thinking about getting my car repainted. Can someone show me what it would look like in a dark metallic blue?'',
       p_imageUrl = ''https://placehold.co/600x400/666666/FFFFFF?text=Sample+Image+3'',
       p_postUrl = ''#'',
       p_created_utc = now,
       p_created_date = now_iso,
       p_author = ''mock_user_3'',
       p_score = 45,
       p_num_comments = 8,
       p_subreddit = ''PhotoshopRequest''\<rparr>]"

text \<open>\<^verbatim>\<open>str.endswith\<close>, and \<^verbatim>\<open>str.replace('&amp;', '&')\<close>, scanning from the left.\<close>

definition endswith :: "string \<Rightarrow> string \<Rightarrow> bool" where
  "endswith s suf = (length suf \<le> length s \<and> drop (length s - length suf) s = suf)"

function replace_amp :: "string \<Rightarrow> string" where
  "replace_amp s =
     (if s = [] then []
      else if take 5 s = ''&amp;'' then CHR ''&'' # replace_amp (drop 5 s)
      else hd s # replace_amp (tl s))"
  by pat_completeness auto
termination
  by (relation "measure length") auto

declare replace_amp.simps [simp del]

text \<open>
  \<^verbatim>\<open>submission.preview['images'][0]['source']['url'].replace('&amp;', '&')\<close>, with
  the \<^verbatim>\<open>KeyError\<close> of a missing key and the \<^verbatim>\<open>IndexError\<close> of an empty list.
\<close>

definition preview_url :: "preview_dict \<Rightarrow> py_exn + string" where
  "preview_url preview =
     (case preview of
        None \<Rightarrow> Inl KeyError
      | Some [] \<Rightarrow> Inl IndexError
      | Some (first_image # images) \<Rightarrow>
          (case first_image of
             None \<Rightarrow> Inl KeyError
           | Some source \<Rightarrow>
               (case source of
                  None \<Rightarrow> Inl KeyError
                | Some url \<Rightarrow> Inr (replace_amp url))))"

definition has_image_extension :: "string \<Rightarrow> bool" where
  "has_image_extension url =
     (endswith url ''.jpg'' \<or> endswith url ''.jpeg'' \<or> endswith url ''.png'')"

text \<open>The value of \<^verbatim>\<open>image_url\<close> after the \<^verbatim>\<open>if\<close>/\<^verbatim>\<open>elif\<close> of the loop body.\<close>

definition from_preview :: "submission \<Rightarrow> string option" where
  "from_preview submission =
     (case s_preview submission of
        None \<Rightarrow> None
      | Some preview \<Rightarrow>
          (case preview_url preview of Inl e \<Rightarrow> None | Inr url \<Rightarrow> Some url))"

definition find_image_url :: "submission \<Rightarrow> string option" where
  "find_image_url submission =
     (case s_url submission of
        None \<Rightarrow> from_preview submission
      | Some url \<Rightarrow> if has_image_extension url then Some url else from_preview submission)"

definition post_data :: "(int \<Rightarrow> string) \<Rightarrow> submission \<Rightarrow> string \<Rightarrow> post" where
  "post_data isoformat submission image_url =
     \<lparr>p_id = s_id submission,
      p_title = s_title submission,
      p_description = s_selftext submission,
      p_imageUrl = image_url,
      p_postUrl = ''https://www.reddit.com'' @ s_permalink submission,
      p_created_utc = s_created_utc submission,
      p_created_date = isoformat (s_created_utc submission),
      p_author = (case s_author submission of Some name \<Rightarrow> name | None \<Rightarrow> ''[deleted]''),
      p_score = s_score submission,
      p_num_comments = s_num_comments submission,
      p_subreddit = s_subreddit submission\<rparr>"

text \<open>
  The \<^verbatim>\<open>for\<close> loop over \<^verbatim>\<open>subreddit.new(limit=limit)\<close>. The listing is the
  sequence of what the iterator does at each step: it yields a submission or it raises.
  The loop appends to \<^verbatim>\<open>image_posts\<close>; an exception ends it.
\<close>

fun collect ::
  "(int \<Rightarrow> string) \<Rightarrow> int \<Rightarrow> (py_exn + submission) list \<Rightarrow> post list \<Rightarrow> py_exn + post list" where
  "collect isoformat one_day_ago [] image_posts = Inr image_posts"
| "collect isoformat one_day_ago (Inl e # listing) image_posts = Inl e"
| "collect isoformat one_day_ago (Inr submission # listing) image_posts =
     (if s_created_utc submission < one_day_ago
      then collect isoformat one_day_ago listing image_posts
      else (case find_image_url submission of
              None \<Rightarrow> collect isoformat one_day_ago listing image_posts
            | Some image_url \<Rightarrow>
                if image_url \<noteq> []
                then collect isoformat one_day_ago listing
                       (image_posts @ [post_data isoformat submission image_url])
                else collect isoformat one_day_ago listing image_posts))"

text \<open>
  What the operation sees of the world: the credentials, the clock, the local ISO
  format of a time, the listing the live source gives for a limit, the cache file, and
  how the disk takes a write.
\<close>

record world =
  w_credentials :: credentials
  w_now :: int
  w_isoformat :: "int \<Rightarrow> string"
  w_new :: "nat \<Rightarrow> (py_exn + submission) list"
  w_cache :: cache_file
  w_disk :: disk

text \<open>
  The body of the \<^verbatim>\<open>try\<close> up to the end of the loop. With no instance,
  \<^verbatim>\<open>reddit.subreddit\<close> is an attribute of \<^verbatim>\<open>None\<close> and raises.
\<close>

definition fetch_fresh :: "world \<Rightarrow> reddit option \<Rightarrow> nat \<Rightarrow> py_exn + post list" where
  "fetch_fresh w reddit limit =
     (case reddit of
        None \<Rightarrow> Inl AttributeError
      | Some r \<Rightarrow>
          (let one_day_ago = w_now w - (24 * 60 * 60)
           in collect (w_isoformat w) one_day_ago (w_new w limit) []))"

text \<open>
  \<^verbatim>\<open>cached_posts = load_posts_from_cache()\<close> followed by
  \<^verbatim>\<open>return cached_posts if cached_posts else get_mock_posts()\<close>, on a given state of
  the cache file.
\<close>

definition cache_or_mock :: "world \<Rightarrow> cache_file \<Rightarrow> py_exn + json_doc" where
  "cache_or_mock w f =
     (case load_posts_from_cache f of
        Inl e \<Rightarrow> Inl e
      | Inr cached_posts \<Rightarrow>
          if truthy_doc cached_posts then Inr cached_posts
          else Inr (JsonPosts (get_mock_posts (w_now w) (w_isoformat w (w_now w)))))"

text \<open>
  The whole body of the \<^verbatim>\<open>try\<close>: what it returns or raises, and the cache file at
  that moment.
\<close>

definition try_block :: "world \<Rightarrow> reddit option \<Rightarrow> nat \<Rightarrow> (py_exn + json_doc) \<times> cache_file" where
  "try_block w reddit limit =
     (case fetch_fresh w reddit limit of
        Inl e \<Rightarrow> (Inl e, w_cache w)
      | Inr image_posts \<Rightarrow>
          if image_posts \<noteq> []
          then (case save_posts_to_cache (w_disk w) image_posts (w_cache w) of
                  (Inl e, f) \<Rightarrow> (Inl e, f)
                | (Inr u, f) \<Rightarrow> (Inr (JsonPosts image_posts), f))
          else (cache_or_mock w (w_cache w), w_cache w))"

text \<open>
  \<^verbatim>\<open>get_photoshop_request_posts(limit, cache)\<close>: the exception that leaves it, or the
  returned value with the cache file afterwards. The instance is made first, outside
  the \<^verbatim>\<open>try\<close> and before the test of \<^verbatim>\<open>cache\<close>. The \<^verbatim>\<open>except Exception\<close>
  clause takes every exception of the body and reads the cache itself.
\<close>

definition get_photoshop_request_posts ::
  "world \<Rightarrow> nat \<Rightarrow> bool \<Rightarrow> py_exn + (json_doc \<times> cache_file)" where
  "get_photoshop_request_posts w limit cache =
     (case get_reddit_instance (w_credentials w) of
        Inl e \<Rightarrow> Inl e
      | Inr reddit \<Rightarrow>
          if cache
          then (case cache_or_mock w (w_cache w) of
                  Inl e \<Rightarrow> Inl e
                | Inr posts \<Rightarrow> Inr (posts, w_cache w))
          else (case try_block w reddit limit of
                  (Inr posts, f) \<Rightarrow> Inr (posts, f)
                | (Inl e, f) \<Rightarrow>
                    (case cache_or_mock w f of
                       Inl e' \<Rightarrow> Inl e'
                     | Inr posts \<Rightarrow> Inr (posts, f))))"






section \<open>ai\_service: the edit orchestrator\<close>

text \<open>
  The exceptions \<^verbatim>\<open>edit_image_with_gemini\<close> tells apart, each with the text that
  \<^verbatim>\<open>str\<close> gives for it: \<^verbatim>\<open>requests.exceptions.RequestException\<close> (the error of
  \<^verbatim>\<open>raise_for_status\<close> is one), \<^verbatim>\<open>FileNotFoundError\<close>, and every other
  \<^verbatim>\<open>Exception\<close>.
\<close>

datatype ai_exn = RequestException string | FileNotFoundError string | OtherException string

fun str :: "ai_exn \<Rightarrow> string" where
  "str (RequestException m) = m"
| "str (FileNotFoundError m) = m"
| "str (OtherException m) = m"

text \<open>
  The response of the model. A part carries text, or inline data (a MIME type with
  bytes; bytes are lists of characters), or something else. \<^verbatim>\<open>part.inline_data\<close> of
  a part that carries no inline data is the empty value, which tests false. A response
  has no candidate (the prompt was blocked), and then the accessors \<^verbatim>\<open>parts\<close> and
  \<^verbatim>\<open>text\<close> raise \<^verbatim>\<open>ValueError\<close> with the message it carries; or it has the parts
  of its candidate. The accessor \<^verbatim>\<open>text\<close> gives the texts of the parts, joined by
  a line feed, and raises when there is no part or when a part carries no text.
\<close>

record blob =
  mime_type :: string
  data :: string

datatype part = TextPart string | InlineData blob | OtherPart

datatype response = Blocked string | Answer "part list"

definition inline_data :: "part \<Rightarrow> blob" where
  "inline_data p =
     (case p of InlineData b \<Rightarrow> b | _ \<Rightarrow> \<lparr>mime_type = [], data = []\<rparr>)"

definition truthy_blob :: "blob \<Rightarrow> bool" where
  "truthy_blob b = (mime_type b \<noteq> [] \<or> data b \<noteq> [])"

definition parts :: "response \<Rightarrow> ai_exn + part list" where
  "parts r = (case r of Blocked m \<Rightarrow> Inl (OtherException m) | Answer ps \<Rightarrow> Inr ps)"

fun join_texts :: "part list \<Rightarrow> string option" where
  "join_texts [] = None"
| "join_texts [TextPart t] = Some t"
| "join_texts (TextPart t # p # ps) =
     (case join_texts (p # ps) of None \<Rightarrow> None | Some ts \<Rightarrow> Some (t @ [CHR 0x0A] @ ts))"
| "join_texts (p # ps) = None"

definition text_accessor :: "response \<Rightarrow> ai_exn + string" where
  "text_accessor r =
     (case parts r of
        Inl e \<Rightarrow> Inl e
      | Inr ps \<Rightarrow>
          (case join_texts ps of
             None \<Rightarrow> Inl (OtherException ''Could not convert part to text.'')
           | Some t \<Rightarrow> Inr t))"

datatype image = Image string

text \<open>
  The collaborators: the vision model, \<open>None\<close> when no API key is configured, as a
  function from the prompt and the image to a response or an exception;
  \<^verbatim>\<open>requests.get\<close> followed by \<^verbatim>\<open>raise_for_status\<close> and \<^verbatim>\<open>content\<close>;
  \<^verbatim>\<open>open(path, "rb").read()\<close>; \<^verbatim>\<open>Image.open\<close>.
\<close>

record services =
  vision_model :: "(string \<Rightarrow> image \<Rightarrow> ai_exn + response) option"
  requests_get :: "string \<Rightarrow> ai_exn + string"
  read_file :: "string \<Rightarrow> ai_exn + string"
  image_open :: "string \<Rightarrow> ai_exn + image"

record edit_result =
  ok :: bool
  edited_image_data :: "string option"
  error :: "string option"

definition startswith :: "string \<Rightarrow> string \<Rightarrow> bool" where
  "startswith s pre = (take (length pre) s = pre)"

text \<open>\<^verbatim>\<open>base64.b64encode\<close>: three bytes give four characters, with padding at the end.\<close>

definition b64_alphabet :: string where
  "b64_alphabet = ''ABCDEFGHIJKLMNOPQRSTUVWXYZabcdefghijklmnopqrstuvwxyz0123456789+/''"

definition b64_char :: "nat \<Rightarrow> char" where
  "b64_char n = b64_alphabet ! (n mod 64)"

fun b64encode :: "string \<Rightarrow> string" where
  "b64encode [] = []"
| "b64encode [a] =
     (let n = of_char a * 65536
      in [b64_char (n div 262144), b64_char (n div 4096), CHR ''='', CHR ''=''])"
| "b64encode [a, b] =
     (let n = of_char a * 65536 + of_char b * 256
      in [b64_char (n div 262144), b64_char (n div 4096), b64_char (n div 64), CHR ''=''])"
| "b64encode (a # b # c # rest) =
     (let n = of_char a * 65536 + of_char b * 256 + of_char c
      in [b64_char (n div 262144), b64_char (n div 4096), b64_char (n div 64), b64_char n]
         @ b64encode rest)"

definition final_prompt :: "string \<Rightarrow> string" where
  "final_prompt prompt =
     [CHR 0x0A] @
     ''        **Role**: You are an expert photo editing AI.'' @ [CHR 0x0A] @
     ''        **Task**: Follow the user'' @ [CHR 0x27] @
       ''s instructions precisely to edit the provided image.'' @ [CHR 0x0A] @
     ''        **Constraint**: Your response MUST be ONLY the edited image. Do not provide any text, descriptions, or commentary.'' @ [CHR 0x0A] @
     [CHR 0x0A] @
     ''        **User'' @ [CHR 0x27] @ ''s Instruction**: '' @ [CHR 0x22] @ prompt @ [CHR 0x22] @ [CHR 0x0A] @
     ''        ''"

definition no_image_message :: string where
  "no_image_message =
     ''AI did not return an image. It may have refused the request due to safety policies or a vague prompt.''"

text \<open>
  What follows the call of the model: the test
  \<^verbatim>\<open>generation_response.parts and generation_response.parts[0].inline_data\<close>, the
  data URI, and the message with the reason when the accessor \<^verbatim>\<open>text\<close> returns. An
  exception of the accessor \<^verbatim>\<open>parts\<close> is an exception of the \<^verbatim>\<open>try\<close>.
\<close>

definition data_url :: "blob \<Rightarrow> string" where
  "data_url b = ''data:'' @ mime_type b @ '';base64,'' @ b64encode (data b)"

definition refusal_message :: "response \<Rightarrow> string" where
  "refusal_message generation_response =
     (case text_accessor generation_response of
        Inr reason \<Rightarrow> no_image_message @ [CHR 0x0A] @ ''Reason from AI: '' @ reason
      | Inl e \<Rightarrow> no_image_message)"

definition interpret_response :: "response \<Rightarrow> ai_exn + edit_result" where
  "interpret_response generation_response =
     (case parts generation_response of
        Inl e \<Rightarrow> Inl e
      | Inr ps \<Rightarrow>
          (case ps of
             [] \<Rightarrow>
               Inr \<lparr>ok = False, edited_image_data = None,
                    error = Some (refusal_message generation_response)\<rparr>
           | generated_part # others \<Rightarrow>
               if truthy_blob (inline_data generated_part)
               then Inr \<lparr>ok = True,
                         edited_image_data = Some (data_url (inline_data generated_part)),
                         error = None\<rparr>
               else Inr \<lparr>ok = False, edited_image_data = None,
                         error = Some (refusal_message generation_response)\<rparr>))"

text \<open>The first statements of the \<^verbatim>\<open>try\<close>: the bytes of the image, or an exception.\<close>

definition load_image_bytes :: "services \<Rightarrow> string \<Rightarrow> ai_exn + string" where
  "load_image_bytes sv image_source =
     (case (if startswith image_source ''http://'' \<or> startswith image_source ''https://''
            then requests_get sv image_source
            else read_file sv image_source) of
        Inl e \<Rightarrow> Inl e
      | Inr image_bytes \<Rightarrow>
          if image_bytes = [] then Inl (OtherException ''Could not load image data from source.'')
          else Inr image_bytes)"

definition try_body ::
  "services \<Rightarrow> (string \<Rightarrow> image \<Rightarrow> ai_exn + response) \<Rightarrow> string \<Rightarrow> string \<Rightarrow> ai_exn + edit_result" where
  "try_body sv model image_source prompt =
     (case load_image_bytes sv image_source of
        Inl e \<Rightarrow> Inl e
      | Inr image_bytes \<Rightarrow>
          (case image_open sv image_bytes of
             Inl e \<Rightarrow> Inl e
           | Inr img \<Rightarrow>
               (case model (final_prompt prompt) img of
                  Inl e \<Rightarrow> Inl e
                | Inr generation_response \<Rightarrow> interpret_response generation_response)))"

definition failed :: "string \<Rightarrow> edit_result" where
  "failed message = \<lparr>ok = False, edited_image_data = None, error = Some message\<rparr>"

text \<open>
  \<^verbatim>\<open>edit_image_with_gemini(image_source, prompt)\<close>, with its three \<^verbatim>\<open>except\<close>
  clauses in their order.
\<close>

definition edit_image_with_gemini :: "services \<Rightarrow> string \<Rightarrow> string \<Rightarrow> edit_result" where
  "edit_image_with_gemini sv image_source prompt =
     (case vision_model sv of
        None \<Rightarrow> failed ''AI model not configured.''
      | Some model \<Rightarrow>
          (case try_body sv model image_source prompt of
             Inr result \<Rightarrow> result
           | Inl (RequestException m) \<Rightarrow> failed (''Failed to download image from URL: '' @ m)
           | Inl (FileNotFoundError m) \<Rightarrow> failed (''Image file not found at path: '' @ image_source)
           | Inl (OtherException m) \<Rightarrow> failed m))"

text \<open>
  The vocabulary of the specification: a response contains inline image data when
  one of its parts carries some; the source is remote when it starts with one of the
  two schemes.
\<close>

definition contains_inline_image :: "response \<Rightarrow> bool" where
  "contains_inline_image r =
     (case parts r of Inl e \<Rightarrow> False | Inr ps \<Rightarrow> list_ex (\<lambda>p. truthy_blob (inline_data p)) ps)"

definition is_remote :: "string \<Rightarrow> bool" where
  "is_remote image_source =
     (startswith image_source ''http://'' \<or> startswith image_source ''https://'')"

text \<open>Sample data for the resolver.\<close>

definition configured :: credentials where
  "configured =
     \<lparr>REDDIT_CLIENT_ID = Some ''id'', REDDIT_CLIENT_SECRET = Some ''secret'',
      REDDIT_USER_AGENT = Some ''agent'', REDDIT_USERNAME = Some ''user'',
      REDDIT_PASSWORD = Some ''pw''\<rparr>"

definition unconfigured :: credentials where
  "unconfigured =
     \<lparr>REDDIT_CLIENT_ID = None, REDDIT_CLIENT_SECRET = None,
      REDDIT_USER_AGENT = None, REDDIT_USERNAME = None,
      REDDIT_PASSWORD = None\<rparr>"

definition no_agent :: credentials where
  "no_agent =
     \<lparr>REDDIT_CLIENT_ID = Some ''id'', REDDIT_CLIENT_SECRET = Some ''secret'',
      REDDIT_USER_AGENT = None, REDDIT_USERNAME = Some ''user'',
      REDDIT_PASSWORD = Some ''pw''\<rparr>"

definition sub_direct :: submission where
  "sub_direct =
     \<lparr>s_id = ''a1'', s_title = ''Fix the sky'', s_selftext = ''please'',
      s_url = Some ''https://i.redd.it/x.png'', s_preview = None,
      s_permalink = ''/r/PhotoshopRequest/a1'', s_created_utc = 99000,
      s_author = Some ''ann'', s_score = 3, s_num_comments = 1,
      s_subreddit = ''PhotoshopRequest''\<rparr>"

definition sub_preview :: submission where
  "sub_preview =
     \<lparr>s_id = ''b2'', s_title = ''Remove the pole'', s_selftext = [],
      s_url = Some ''https://www.reddit.com/gallery/b2'',
      s_preview = Some (Some [Some (Some ''https://p.it/b?w=1&amp;s=2'')]),
      s_permalink = ''/r/PhotoshopRequest/b2'', s_created_utc = 13600,
      s_author = None, s_score = 7, s_num_comments = 0,
      s_subreddit = ''PhotoshopRequest''\<rparr>"

definition sub_old :: submission where
  "sub_old =
     \<lparr>s_id = ''c3'', s_title = ''Yesterday'', s_selftext = [],
      s_url = Some ''https://i.redd.it/y.jpg'', s_preview = None,
      s_permalink = ''/r/PhotoshopRequest/c3'', s_created_utc = 13599,
      s_author = Some ''cy'', s_score = 9, s_num_comments = 4,
      s_subreddit = ''PhotoshopRequest''\<rparr>"

definition sub_plain :: submission where
  "sub_plain =
     \<lparr>s_id = ''d4'', s_title = ''A question'', s_selftext = ''text only'',
      s_url = Some ''https://www.reddit.com/r/PhotoshopRequest/d4'', s_preview = Some (Some []),
      s_permalink = ''/r/PhotoshopRequest/d4'', s_created_utc = 99500,
      s_author = Some ''dee'', s_score = 0, s_num_comments = 0,
      s_subreddit = ''PhotoshopRequest''\<rparr>"

definition stale_post :: post where
  "stale_post =
     \<lparr>p_id = ''z9'', p_title = ''Earlier'', p_description = [],
      p_imageUrl = ''https://i.redd.it/z.png'', p_postUrl = ''https://www.reddit.com/r/PhotoshopRequest/z9'',
      p_created_utc = 5, p_created_date = ''1970-01-01T00:00:05'', p_author = ''zed'',
      p_score = 1, p_num_comments = 0, p_subreddit = ''PhotoshopRequest''\<rparr>"



definition listing_ok :: "(py_exn + submission) list" where
  "listing_ok = [Inr sub_old, Inr sub_preview, Inr sub_plain, Inr sub_direct]"

definition listing_down :: "(py_exn + submission) list" where
  "listing_down = [Inr sub_direct, Inl (ClientError ''503'')]"



definition world_no_agent :: world where
  "world_no_agent =
     \<lparr>w_credentials = no_agent, w_now = 100000, w_isoformat = (\<lambda>t. ''iso''),
      w_new = (\<lambda>limit. listing_down),
      w_cache = Holds (JsonPosts [stale_post]), w_disk = Writable\<rparr>"

definition world_garbled :: world where
  "world_garbled =
     \<lparr>w_credentials = unconfigured, w_now = 100000, w_isoformat = (\<lambda>t. ''iso''),
      w_new = (\<lambda>limit. listing_down),
      w_cache = Undecodable, w_disk = Writable\<rparr>"

definition world_bare :: world where
  "world_bare =
     \<lparr>w_credentials = unconfigured, w_now = 100000, w_isoformat = (\<lambda>t. ''iso''),
      w_new = (\<lambda>limit. listing_ok),
      w_cache = Unreadable, w_disk = Writable\<rparr>"

text \<open>Sample data for the orchestrator.\<close>

definition png_blob :: blob where
  "png_blob = \<lparr>mime_type = ''image/png'', data = ''PNG''\<rparr>"

definition image_part :: part where
  "image_part = InlineData png_blob"

definition text_part :: part where
  "text_part = TextPart ''Here is the edited image.''"

definition image_first :: response where
  "image_first = Answer [image_part]"

definition text_then_image :: response where
  "text_then_image = Answer [text_part, image_part]"

definition refusal :: response where
  "refusal = Answer [TextPart ''I cannot do that.'']"

definition blocked :: response where
  "blocked = Blocked ''The prompt was blocked.''"

definition services_with :: "response \<Rightarrow> services" where
  "services_with r =
     \<lparr>vision_model = Some (\<lambda>prompt img. Inr r),
      requests_get = (\<lambda>url. if url = ''https://example.com/missing.png''
                            then Inl (RequestException ''404 Client Error: Not Found'')
                            else Inr ''bytes''),
      read_file = (\<lambda>path. if path = ''static/uploads/a.png'' then Inr ''bytes''
                           else Inl (FileNotFoundError ''[Errno 2] No such file or directory'')),
      image_open = (\<lambda>image_bytes. Inr (Image image_bytes))\<rparr>"

section \<open>The reaper\<close>

lemma remove_if_old_cases:
  "remove_if_old cutoff e =
     (if expired cutoff e
      then (if deletion_fails e then Inl OSError else Inr True)
      else Inr False)"
  by (cases e) (simp_all add: remove_if_old_def expired_def deletion_fails_def)

lemma sweep_from:
  "sweep cutoff es k = (fst (sweep cutoff es 0), k + snd (sweep cutoff es 0))"
proof (induction es arbitrary: k)
  case Nil
  show ?case by simp
next
  case (Cons e es)
  note ih = Cons.IH [of "k + 1"] Cons.IH [of k] Cons.IH [of 1]
  show ?case
  proof (cases "remove_if_old cutoff e")
    case (Inl err)
    then show ?thesis using ih(2) by (simp add: case_prod_beta)
  next
    case (Inr b)
    then show ?thesis using ih by (cases b) (simp_all add: case_prod_beta)
  qed
qed

lemma sweep_result:
  "sweep cutoff es 0 =
     (filter (\<lambda>e. \<not> (expired cutoff e \<and> \<not> deletion_fails e)) es,
      length (filter (\<lambda>e. expired cutoff e \<and> \<not> deletion_fails e) es))"
proof (induction es)
  case Nil
  show ?case by simp
next
  case (Cons e es)
  show ?case
    using Cons.IH sweep_from [of cutoff es 1]
    by (simp add: remove_if_old_cases)
qed

lemma clear_old_files_result:
  assumes "fs folder_path = Some es"
  shows "clear_old_files now fs folder_path h =
     (length (filter (\<lambda>e. old_regular_file now h e \<and> \<not> deletion_fails e) es),
      fs(folder_path \<mapsto>
           filter (\<lambda>e. \<not> (old_regular_file now h e \<and> \<not> deletion_fails e)) es))"
proof -
  have c: "now - h * 60 * 60 = now - h * 3600" by simp
  show ?thesis
    unfolding clear_old_files_def old_regular_file_def
    using assms by (simp only: c sweep_result Let_def option.case prod.case)
qed

lemma clear_old_files_absent:
  "fs folder_path = None \<Longrightarrow> clear_old_files now fs folder_path h = (0, fs)"
  by (simp add: clear_old_files_def)

text \<open>
  C5, as stated, fails: in a directory with an old regular file whose removal raises,
  that file is still there after the call.
\<close>

theorem reaper_keeps_locked_old_file_counterexample:
  "old_regular_file 100000 24
     (File ''a.png'' \<lparr>f_size = 10, f_mtime = 1000, f_link = False, f_locked = True\<rparr>) \<and>
   clear_old_files 100000 [''d'' \<mapsto> locked_dir] ''d'' 24 =
     (1, [''d'' \<mapsto>
        [File ''a.png'' \<lparr>f_size = 10, f_mtime = 1000, f_link = False, f_locked = True\<rparr>]])"
  by (simp add: old_regular_file_def expired_def clear_old_files_def locked_dir_def
      remove_if_old_def)

text \<open>
  C5, amended. In an existing directory the reaper deletes exactly the direct entries
  that are files modified strictly before \<open>now\<close> minus the maximum age and whose
  removal succeeds: the entries left are all the others, in their order
  (sub-directories are left whole, with what they hold), and the returned count is the
  number of deleted files. So when the removal of every old file succeeds, the deleted
  entries are exactly the old files.
\<close>

theorem reaper_deletes_the_removable_old_files:
  assumes "fs folder_path = Some es"
  shows
    "clear_old_files now fs folder_path max_age_hours =
       (length (filter (\<lambda>e. old_regular_file now max_age_hours e \<and> \<not> deletion_fails e) es),
        fs(folder_path \<mapsto>
             filter (\<lambda>e. \<not> (old_regular_file now max_age_hours e \<and> \<not> deletion_fails e)) es)) \<and>
     (list_all (\<lambda>e. \<not> deletion_fails e) (filter (old_regular_file now max_age_hours) es) \<longrightarrow>
        clear_old_files now fs folder_path max_age_hours =
          (length (filter (old_regular_file now max_age_hours) es),
           fs(folder_path \<mapsto> filter (\<lambda>e. \<not> old_regular_file now max_age_hours e) es)))"
proof -
  have general: "clear_old_files now fs folder_path max_age_hours =
       (length (filter (\<lambda>e. old_regular_file now max_age_hours e \<and> \<not> deletion_fails e) es),
        fs(folder_path \<mapsto>
             filter (\<lambda>e. \<not> (old_regular_file now max_age_hours e \<and> \<not> deletion_fails e)) es))"
    using clear_old_files_result [of fs folder_path es now max_age_hours] assms by simp
  have special: "clear_old_files now fs folder_path max_age_hours =
          (length (filter (old_regular_file now max_age_hours) es),
           fs(folder_path \<mapsto> filter (\<lambda>e. \<not> old_regular_file now max_age_hours e) es))"
    if ok: "list_all (\<lambda>e. \<not> deletion_fails e) (filter (old_regular_file now max_age_hours) es)"
  proof -
    have free: "\<And>e. e \<in> set es \<Longrightarrow> old_regular_file now max_age_hours e \<Longrightarrow> \<not> deletion_fails e"
      using ok by (simp add: list_all_iff)
    have a: "filter (\<lambda>e. old_regular_file now max_age_hours e \<and> \<not> deletion_fails e) es =
             filter (old_regular_file now max_age_hours) es"
      by (rule filter_cong) (auto simp: free)
    have b: "filter (\<lambda>e. \<not> (old_regular_file now max_age_hours e \<and> \<not> deletion_fails e)) es =
             filter (\<lambda>e. \<not> old_regular_file now max_age_hours e) es"
      by (rule filter_cong) (auto simp: free)
    show ?thesis using general by (simp only: a b)
  qed
  show ?thesis using general special by blast
qed

theorem reaper_deletes_the_removable_old_files_witness:
  "clear_old_files 100000 [''d'' \<mapsto> mixed_dir] ''d'' 24 =
     (1, [''d'' \<mapsto>
        [File ''held.png'' \<lparr>f_size = 4, f_mtime = 99000, f_link = False, f_locked = True\<rparr>,
         Dir ''sub'' [File ''deep.png'' \<lparr>f_size = 5, f_mtime = 0, f_link = False, f_locked = False\<rparr>],
         File ''edge.png'' \<lparr>f_size = 7, f_mtime = 13600, f_link = False, f_locked = False\<rparr>]])"
proof -
  have h1: "[''d'' \<mapsto> mixed_dir] ''d'' = Some mixed_dir" by simp
  have h2: "list_all (\<lambda>e. \<not> deletion_fails e) (filter (old_regular_file 100000 24) mixed_dir)"
    by (simp add: mixed_dir_def deletion_fails_def old_regular_file_def expired_def)
  show ?thesis
    using reaper_deletes_the_removable_old_files
      [of "[''d'' \<mapsto> mixed_dir]" "''d''" mixed_dir 100000 24] h1 h2
    by (simp add: mixed_dir_def old_regular_file_def expired_def)
qed

text \<open>
  C6. The reaper is best-effort. When the folder is no directory it returns 0 and
  leaves the file system as it is. In a directory, an entry whose removal raises stays
  and is not counted, and the entries after it are treated as if it had not been
  there: the count is the number of old files whose removal succeeded, and exactly
  those are gone.
\<close>

theorem reaper_is_best_effort:
  "(fs folder_path = None \<longrightarrow> clear_old_files now fs folder_path max_age_hours = (0, fs)) \<and>
   (fs folder_path = Some es \<longrightarrow>
      clear_old_files now fs folder_path max_age_hours =
        (length (filter (\<lambda>e. old_regular_file now max_age_hours e \<and> \<not> deletion_fails e) es),
         fs(folder_path \<mapsto>
              filter (\<lambda>e. \<not> old_regular_file now max_age_hours e \<or> deletion_fails e) es)))"
proof -
  have "(\<lambda>e. \<not> (old_regular_file now max_age_hours e \<and> \<not> deletion_fails e)) =
        (\<lambda>e. \<not> old_regular_file now max_age_hours e \<or> deletion_fails e)"
    by auto
  then show ?thesis
    using clear_old_files_result [of fs folder_path es now max_age_hours]
      clear_old_files_absent [of fs folder_path now max_age_hours]
    by simp
qed

theorem reaper_is_best_effort_witness:
  "clear_old_files 100000 [''d'' \<mapsto> locked_dir] ''d'' 24 =
     (1, [''d'' \<mapsto>
        [File ''a.png'' \<lparr>f_size = 10, f_mtime = 1000, f_link = False, f_locked = True\<rparr>]]) \<and>
   clear_old_files 100000 [''d'' \<mapsto> locked_dir] ''e'' 24 = (0, [''d'' \<mapsto> locked_dir])"
proof -
  have h1: "[''d'' \<mapsto> locked_dir] ''d'' = Some locked_dir" by simp
  have h2: "[''d'' \<mapsto> locked_dir] ''e'' = None" by simp
  show ?thesis
    using reaper_is_best_effort [of "[''d'' \<mapsto> locked_dir]" "''d''" 100000 24 locked_dir]
      reaper_is_best_effort [of "[''d'' \<mapsto> locked_dir]" "''e''" 100000 24 locked_dir]
    unfolding h1 h2
    by (simp add: locked_dir_def old_regular_file_def expired_def deletion_fails_def)
qed

section \<open>The quota-triggered cleanup\<close>

lemma makedirs_dom: "dom (makedirs fs p) = insert p (dom fs)"
  by (auto simp: makedirs_def split: option.splits)

lemma makedirs_le: "fs \<subseteq>\<^sub>m makedirs fs p"
  by (auto simp: makedirs_def map_le_def split: option.splits)

lemma sum_sizes_concat:
  "sum_list (map f_size (filter P (concat (map g cs)))) =
     sum_list (map (\<lambda>c. sum_list (map f_size (filter P (g c)))) cs)"
  by (induction cs) simp_all

lemma walk_size_files_below:
  "walk_size n = sum_list (map f_size (filter (\<lambda>i. \<not> f_link i) (files_below n)))"
proof (induction n rule: walk_size.induct)
  case (1 n i)
  show ?case by simp
next
  case (2 n cs)
  have m: "map walk_size cs =
        map (\<lambda>c. sum_list (map f_size (filter (\<lambda>i. \<not> f_link i) (files_below c)))) cs"
    by (rule map_cong [OF refl]) (rule "2.IH")
  show ?case
    unfolding walk_size.simps files_below.simps sum_sizes_concat m ..
qed

lemma get_directory_size_bytes:
  "get_directory_size fs path = real (bytes_used (entries fs path)) / (1024 * 1024)"
proof -
  have w: "walk_size =
      (\<lambda>n. sum_list (map f_size (filter (\<lambda>i. \<not> f_link i) (files_below n))))"
    by (rule ext) (rule walk_size_files_below)
  have "sum_list (map walk_size es) = bytes_used es" for es
    unfolding bytes_used_def sum_sizes_concat by (subst w) (rule refl)
  then show ?thesis
    by (simp add: get_directory_size_def entries_def bytes_used_def split: option.split)
qed

lemma megabytes_exceed:
  "(real a / (1024 * 1024) + real b / (1024 * 1024) > real_of_int c) =
     (int (a + b) > c * 1048576)"
proof -
  have "(real a / (1024 * 1024) + real b / (1024 * 1024) > real_of_int c) =
        (real_of_int (c * 1048576) < real_of_int (int (a + b)))"
    by (simp add: field_simps)
  then show ?thesis
    by (simp only: of_int_less_iff)
qed

lemma clear_old_files_survivors:
  assumes "fs folder_path = Some es"
  shows "snd (clear_old_files now fs folder_path 24) = fs(folder_path \<mapsto> survivors now 24 es)"
proof -
  have "(\<lambda>e. \<not> (old_regular_file now 24 e \<and> \<not> deletion_fails e)) =
        (\<lambda>e. \<not> old_regular_file now 24 e \<or> deletion_fails e)"
    by auto
  then show ?thesis
    using clear_old_files_result [of fs folder_path es now 24] assms
    by (simp add: survivors_def)
qed

text \<open>
  C7, as stated, fails: when \<open>MAX_STORAGE_MB\<close> is set to a text that is no integer,
  the ceiling cannot be read, the operation raises at once, and no directory is made.
\<close>

theorem bad_ceiling_raises_counterexample:
  "run_cleanup_if_needed (Some ''abc'') 100000 100001 empty_fs = Inl ValueError"
  by (simp add: run_cleanup_if_needed_def max_storage_mb_def py_int_def strip_def
      is_space_def digits_def is_digit_def)

text \<open>
  C7, amended. When \<open>MAX_STORAGE_MB\<close> is not set, the ceiling is 500; when it is set
  to an integer literal, the ceiling is that integer. With a ceiling, the cleanup
  first makes sure that both tracked directories exist, which changes no directory
  that was there. The usage is the number of bytes of the files at any depth below the
  two directories, symbolic links left out, and it exceeds the ceiling when it is more
  than the ceiling times 1048576 bytes. When it does not, the reaper is not called and
  nothing is deleted. When it does, the reaper is called once on the uploads and then
  once on the edited images, each time with 24 hours, and afterwards each of the two
  directories holds the entries that such a call leaves.
\<close>

theorem cleanup_policy:
  assumes "max_storage_mb MAX_STORAGE_MB = Inr limit_mb"
  shows
    "(let fs2 = makedirs (makedirs fs uploads_path) edited_path;
          uploads = entries fs2 uploads_path;
          edited = entries fs2 edited_path
      in uploads_path \<in> dom fs2 \<and> edited_path \<in> dom fs2 \<and> fs \<subseteq>\<^sub>m fs2 \<and>
         run_cleanup_if_needed MAX_STORAGE_MB t1 t2 fs =
           (if int (bytes_used uploads + bytes_used edited) > limit_mb * 1048576
            then Inr (fs2(uploads_path \<mapsto> survivors t1 24 uploads,
                          edited_path \<mapsto> survivors t2 24 edited),
                      [(uploads_path, 24), (edited_path, 24)])
            else Inr (fs2, []))) \<and>
     max_storage_mb None = Inr 500"
proof -
  define fs2 where "fs2 = makedirs (makedirs fs uploads_path) edited_path"
  have ne: "uploads_path \<noteq> edited_path"
    by (simp add: uploads_path_def edited_path_def)
  have d: "uploads_path \<in> dom fs2" "edited_path \<in> dom fs2"
    by (simp_all add: fs2_def makedirs_dom)
  have le: "fs \<subseteq>\<^sub>m fs2"
    unfolding fs2_def
    using makedirs_le [of fs uploads_path] makedirs_le [of "makedirs fs uploads_path" edited_path]
    by (rule map_le_trans)
  have u: "fs2 uploads_path = Some (entries fs2 uploads_path)"
    using d(1) by (auto simp: entries_def)
  have e: "fs2 edited_path = Some (entries fs2 edited_path)"
    using d(2) by (auto simp: entries_def)
  have s1: "snd (clear_old_files t1 fs2 uploads_path 24) =
            fs2(uploads_path \<mapsto> survivors t1 24 (entries fs2 uploads_path))"
    using u by (rule clear_old_files_survivors)
  have e': "(fs2(uploads_path \<mapsto> survivors t1 24 (entries fs2 uploads_path))) edited_path =
            Some (entries fs2 edited_path)"
    using e ne by simp
  have s2: "snd (clear_old_files t2 (snd (clear_old_files t1 fs2 uploads_path 24)) edited_path 24) =
            fs2(uploads_path \<mapsto> survivors t1 24 (entries fs2 uploads_path),
                edited_path \<mapsto> survivors t2 24 (entries fs2 edited_path))"
    unfolding s1 using e' by (rule clear_old_files_survivors)
  have run: "run_cleanup_if_needed MAX_STORAGE_MB t1 t2 fs =
       (if int (bytes_used (entries fs2 uploads_path) + bytes_used (entries fs2 edited_path))
             > limit_mb * 1048576
        then Inr (snd (clear_old_files t2 (snd (clear_old_files t1 fs2 uploads_path 24))
                         edited_path 24),
                  [(uploads_path, 24), (edited_path, 24)])
        else Inr (fs2, []))"
    using assms
    by (simp add: run_cleanup_if_needed_def Let_def case_prod_beta fs2_def [symmetric]
        get_directory_size_bytes megabytes_exceed)
  have dflt: "max_storage_mb None = Inr 500"
    by (simp add: max_storage_mb_def)
  show ?thesis
    unfolding Let_def fs2_def [symmetric]
    using d le run dflt by (simp only: s2 simp_thms)
qed

lemma py_int_samples: "py_int ''501'' = Inr 501" "py_int '' -1_000 '' = Inr (- 1000)"
  "py_int ''12.5'' = Inl ValueError" "py_int [] = Inl ValueError"
  by (simp_all add: py_int_def strip_def is_space_def digits_def is_digit_def digit_value_def)

theorem cleanup_policy_witness:
  "run_cleanup_if_needed None 100000 100001 quota_fs =
     Inr ([uploads_path \<mapsto>
             [File ''link.png'' \<lparr>f_size = 900 * 1048576, f_mtime = 99000, f_link = True, f_locked = False\<rparr>],
           edited_path \<mapsto>
             [Dir ''batch'' [File ''deep.png'' \<lparr>f_size = 200 * 1048576 + 1, f_mtime = 0, f_link = False, f_locked = False\<rparr>]]],
          [(uploads_path, 24), (edited_path, 24)]) \<and>
   run_cleanup_if_needed (Some ''501'') 100000 100001 quota_fs = Inr (quota_fs, [])"
proof -
  have ne: "uploads_path \<noteq> edited_path"
    by (simp add: uploads_path_def edited_path_def)
  have m: "makedirs (makedirs quota_fs uploads_path) edited_path = quota_fs"
    using ne by (simp add: makedirs_def quota_fs_def)
  have h1: "max_storage_mb None = Inr 500"
    by (simp add: max_storage_mb_def)
  have h2: "max_storage_mb (Some ''501'') = Inr 501"
    by (simp add: max_storage_mb_def py_int_samples)
  have u: "entries quota_fs uploads_path =
     [File ''big.png'' \<lparr>f_size = 300 * 1048576, f_mtime = 1000, f_link = False, f_locked = False\<rparr>,
      File ''link.png'' \<lparr>f_size = 900 * 1048576, f_mtime = 99000, f_link = True, f_locked = False\<rparr>]"
    using ne by (simp add: entries_def quota_fs_def)
  have e: "entries quota_fs edited_path =
     [Dir ''batch'' [File ''deep.png'' \<lparr>f_size = 200 * 1048576 + 1, f_mtime = 0, f_link = False, f_locked = False\<rparr>],
      File ''out.png'' \<lparr>f_size = 7, f_mtime = 2000, f_link = False, f_locked = False\<rparr>]"
    using ne by (simp add: entries_def quota_fs_def)
  have b: "bytes_used (entries quota_fs uploads_path) + bytes_used (entries quota_fs edited_path) =
           500 * 1048576 + 8"
    unfolding u e by (simp add: bytes_used_def)
  have su: "survivors 100000 24 (entries quota_fs uploads_path) =
     [File ''link.png'' \<lparr>f_size = 900 * 1048576, f_mtime = 99000, f_link = True, f_locked = False\<rparr>]"
    unfolding u by (simp add: survivors_def old_regular_file_def expired_def deletion_fails_def)
  have se: "survivors 100001 24 (entries quota_fs edited_path) =
     [Dir ''batch'' [File ''deep.png'' \<lparr>f_size = 200 * 1048576 + 1, f_mtime = 0, f_link = False, f_locked = False\<rparr>]]"
    unfolding e by (simp add: survivors_def old_regular_file_def expired_def deletion_fails_def)
  have q: "quota_fs(uploads_path \<mapsto>
              [File ''link.png'' \<lparr>f_size = 900 * 1048576, f_mtime = 99000, f_link = True, f_locked = False\<rparr>],
            edited_path \<mapsto>
              [Dir ''batch'' [File ''deep.png'' \<lparr>f_size = 200 * 1048576 + 1, f_mtime = 0, f_link = False, f_locked = False\<rparr>]]) =
           [uploads_path \<mapsto>
              [File ''link.png'' \<lparr>f_size = 900 * 1048576, f_mtime = 99000, f_link = True, f_locked = False\<rparr>],
            edited_path \<mapsto>
              [Dir ''batch'' [File ''deep.png'' \<lparr>f_size = 200 * 1048576 + 1, f_mtime = 0, f_link = False, f_locked = False\<rparr>]]]"
    using ne by (simp add: quota_fs_def fun_upd_twist)
  have r1: "run_cleanup_if_needed None 100000 100001 quota_fs =
     Inr (quota_fs(uploads_path \<mapsto> survivors 100000 24 (entries quota_fs uploads_path),
                   edited_path \<mapsto> survivors 100001 24 (entries quota_fs edited_path)),
          [(uploads_path, 24), (edited_path, 24)])"
    using cleanup_policy [OF h1, of quota_fs 100000 100001]
    unfolding Let_def m b by simp
  have r2: "run_cleanup_if_needed (Some ''501'') 100000 100001 quota_fs = Inr (quota_fs, [])"
    using cleanup_policy [OF h2, of quota_fs 100000 100001]
    unfolding Let_def m b by simp
  show ?thesis
    unfolding r1 r2 su se q by simp
qed

section \<open>The post source resolver\<close>












lemma sample_instances:
  "get_reddit_instance configured = Inr (Some (Reddit configured))"
  "get_reddit_instance unconfigured = Inr None"
  "get_reddit_instance no_agent = Inl MissingRequiredAttributeException"
  by (simp_all add: get_reddit_instance_def praw_Reddit_def truthy_def configured_def
      unconfigured_def no_agent_def)


text \<open>
  What the operation does when the client can be made or the credentials are not
  configured: an exception of the body of the \<^verbatim>\<open>try\<close> gives what the cache file or
  the mock posts give, and the cache file is left as it was; with a cache file that
  holds a list of posts that is not empty, this list is returned; and with
  \<open>cache = True\<close> the live listing is not read.
\<close>

lemma resolver_when_live_raises:
  assumes "get_reddit_instance (w_credentials w) = Inr reddit"
    and "fetch_fresh w reddit limit = Inl e"
  shows "get_photoshop_request_posts w limit False =
     (case cache_or_mock w (w_cache w) of
        Inl e' \<Rightarrow> Inl e'
      | Inr posts \<Rightarrow> Inr (posts, w_cache w))"
  using assms by (simp add: get_photoshop_request_posts_def try_block_def)

lemma cache_or_mock_cases:
  "cache_or_mock w (Holds (JsonPosts (p # ps))) = Inr (JsonPosts (p # ps))"
  "cache_or_mock w (Holds (JsonPosts [])) =
     Inr (JsonPosts (get_mock_posts (w_now w) (w_isoformat w (w_now w))))"
  "cache_or_mock w Absent = Inr (JsonPosts (get_mock_posts (w_now w) (w_isoformat w (w_now w))))"
  "cache_or_mock w Unreadable =
     Inr (JsonPosts (get_mock_posts (w_now w) (w_isoformat w (w_now w))))"
  "cache_or_mock w Undecodable = Inl UnicodeDecodeError"
  "cache_or_mock w (Holds JsonScalar) = Inl TypeError"
  by (simp_all add: cache_or_mock_def load_posts_from_cache_def truthy_doc_def)

lemma resolver_returns_cached_posts:
  assumes "get_reddit_instance (w_credentials w) = Inr reddit"
    and "fetch_fresh w reddit limit = Inl e"
    and "w_cache w = Holds (JsonPosts cached)"
    and "cached \<noteq> []"
  shows "get_photoshop_request_posts w limit False = Inr (JsonPosts cached, w_cache w)"
proof -
  obtain p ps where c: "cached = p # ps"
    using assms(4) by (cases cached) auto
  show ?thesis
    using resolver_when_live_raises [OF assms(1) assms(2)] assms(3)
    by (simp add: c cache_or_mock_cases)
qed

lemma cache_mode_when_client_built:
  assumes "get_reddit_instance (w_credentials w) = Inr reddit"
  shows "get_photoshop_request_posts w limit True =
     (case cache_or_mock w (w_cache w) of
        Inl e \<Rightarrow> Inl e
      | Inr posts \<Rightarrow> Inr (posts, w_cache w))"
    and "get_photoshop_request_posts (w\<lparr>w_new := listing\<rparr>) limit True =
         get_photoshop_request_posts w limit True"
    and "map p_id (get_mock_posts t d) = [''mock_post_1'', ''mock_post_2'', ''mock_post_3'']"
  using assms
  by (simp_all add: get_photoshop_request_posts_def cache_or_mock_def get_mock_posts_def
      split: sum.split)

text \<open>
  C1. The claim is broken by the code where the user agent is not set and the four
  variables that \<^verbatim>\<open>get_reddit_instance\<close> tests are: the constructor of the client
  raises, the call is outside the \<^verbatim>\<open>try\<close>, and the exception leaves the operation.
  It is also broken where the live source raises and the cache file is no UTF-8 text:
  the handler reads the cache and the error of the decoding leaves the operation.
\<close>

theorem live_source_errors_escape:
  "get_photoshop_request_posts world_no_agent 10 False = Inl MissingRequiredAttributeException \<and>
   get_photoshop_request_posts world_garbled 10 False = Inl UnicodeDecodeError"
proof -
  have a: "get_photoshop_request_posts world_no_agent 10 False =
           Inl MissingRequiredAttributeException"
    by (simp add: get_photoshop_request_posts_def world_no_agent_def sample_instances)
  have b: "get_photoshop_request_posts world_garbled 10 False = Inl UnicodeDecodeError"
    by (simp add: get_photoshop_request_posts_def world_garbled_def sample_instances
        try_block_def fetch_fresh_def cache_or_mock_def load_posts_from_cache_def)
  show ?thesis using a b by simp
qed




text \<open>
  C3. The claim is broken by the code where the live source cannot be used since the
  user agent is not set while the four tested variables are: the cache file holds a
  post, and the operation raises instead of returning it.
\<close>

theorem cached_posts_not_returned:
  "w_cache world_no_agent = Holds (JsonPosts [stale_post]) \<and>
   w_new world_no_agent 10 = [Inr sub_direct, Inl (ClientError ''503'')] \<and>
   get_reddit_instance (w_credentials world_no_agent) = Inl MissingRequiredAttributeException \<and>
   get_photoshop_request_posts world_no_agent 10 False = Inl MissingRequiredAttributeException"
  by (simp add: get_photoshop_request_posts_def world_no_agent_def sample_instances
      listing_down_def)

text \<open>
  C4. The claim is broken by the code where the user agent is not set while the four
  tested variables are: with \<open>cache = True\<close> the client is still made first, its
  constructor raises, and neither the cached post nor the mock posts are returned.
\<close>

theorem cache_mode_builds_the_client:
  "get_photoshop_request_posts world_no_agent 10 True = Inl MissingRequiredAttributeException \<and>
   get_photoshop_request_posts (world_no_agent\<lparr>w_cache := Absent\<rparr>) 10 True =
     Inl MissingRequiredAttributeException"
  by (simp add: get_photoshop_request_posts_def world_no_agent_def sample_instances)

lemma cache_or_mock_truthy:
  "cache_or_mock w f = Inr posts \<Longrightarrow> truthy_doc posts"
  by (auto simp: cache_or_mock_def truthy_doc_def get_mock_posts_def
      split: sum.splits if_splits)

text \<open>
  C10. Whatever the mode, the credentials, the live source, the cache file and the
  disk: whenever the operation returns, what it returns is not empty. It is a list of
  posts that is not empty, or, when the cache file held one, an object or a string
  that is not empty.
\<close>

theorem resolver_result_nonempty:
  assumes "get_photoshop_request_posts w limit cache = Inr (result, cache_after)"
  shows "result \<noteq> JsonPosts [] \<and> result \<noteq> JsonObject [] \<and> result \<noteq> JsonString [] \<and>
         result \<noteq> JsonScalar"
proof -
  have t: "truthy_doc result"
    using assms
    by (auto simp: get_photoshop_request_posts_def try_block_def save_posts_to_cache_def
        truthy_doc_def
        dest: cache_or_mock_truthy
        split: sum.splits if_splits prod.splits disk.splits)
  then show ?thesis
    by (auto simp: truthy_doc_def)
qed

theorem resolver_result_nonempty_witness:
  "get_photoshop_request_posts world_bare 10 True =
     Inr (JsonPosts (get_mock_posts 100000 ''iso''), Unreadable) \<and>
   JsonPosts (get_mock_posts 100000 ''iso'') \<noteq> JsonPosts []"
proof -
  have r: "get_photoshop_request_posts world_bare 10 True =
     Inr (JsonPosts (get_mock_posts 100000 ''iso''), Unreadable)"
    by (simp add: get_photoshop_request_posts_def world_bare_def sample_instances
        cache_or_mock_def load_posts_from_cache_def truthy_doc_def)
  show ?thesis
    using r resolver_result_nonempty [OF r] by simp
qed

section \<open>The edit orchestrator\<close>

lemma b64encode_samples:
  "b64encode ''Man'' = ''TWFu''" "b64encode ''Ma'' = ''TWE=''" "b64encode ''M'' = ''TQ==''"
  "b64encode ''PNG'' = ''UE5H''"
  by (simp_all add: b64_char_def b64_alphabet_def)

lemma edit_of_response:
  "edit_image_with_gemini (services_with r) ''https://example.com/a.png'' prompt =
     (case interpret_response r of
        Inr result \<Rightarrow> result
      | Inl (RequestException m) \<Rightarrow> failed (''Failed to download image from URL: '' @ m)
      | Inl (FileNotFoundError m) \<Rightarrow>
          failed (''Image file not found at path: '' @ ''https://example.com/a.png'')
      | Inl (OtherException m) \<Rightarrow> failed m)"
proof -
  have l: "load_image_bytes (services_with r) ''https://example.com/a.png'' = Inr ''bytes''"
    by (simp add: load_image_bytes_def services_with_def startswith_def)
  have s: "vision_model (services_with r) = Some (\<lambda>prompt img. Inr r)"
    "image_open (services_with r) = (\<lambda>image_bytes. Inr (Image image_bytes))"
    by (simp_all add: services_with_def)
  show ?thesis
  proof (cases "interpret_response r")
    case (Inr result)
    then show ?thesis
      by (simp add: edit_image_with_gemini_def try_body_def l s)
  next
    case (Inl e)
    then show ?thesis
      by (cases e) (simp_all add: edit_image_with_gemini_def try_body_def l s)
  qed
qed

lemma edit_samples:
  "edit_image_with_gemini (services_with image_first) ''https://example.com/a.png'' ''brighten'' =
     \<lparr>ok = True, edited_image_data = Some ''data:image/png;base64,UE5H'', error = None\<rparr>"
  "edit_image_with_gemini (services_with refusal) ''https://example.com/a.png'' ''brighten'' =
     \<lparr>ok = False, edited_image_data = None,
      error = Some (no_image_message @ [CHR 0x0A] @ ''Reason from AI: I cannot do that.'')\<rparr>"
  "edit_image_with_gemini (services_with blocked) ''https://example.com/a.png'' ''brighten'' =
     \<lparr>ok = False, edited_image_data = None, error = Some ''The prompt was blocked.''\<rparr>"
proof -
  have d: "data_url png_blob = ''data:image/png;base64,UE5H''"
    by (simp add: data_url_def png_blob_def b64encode_samples del: b64encode.simps)
  have t: "truthy_blob png_blob" "inline_data image_part = png_blob"
    by (simp_all add: truthy_blob_def inline_data_def image_part_def png_blob_def)
  have i1: "interpret_response image_first =
     Inr \<lparr>ok = True, edited_image_data = Some ''data:image/png;base64,UE5H'', error = None\<rparr>"
    by (simp add: interpret_response_def parts_def image_first_def t d)
  have i2: "interpret_response refusal =
     Inr \<lparr>ok = False, edited_image_data = None,
          error = Some (no_image_message @ [CHR 0x0A] @ ''Reason from AI: I cannot do that.'')\<rparr>"
    by (simp add: interpret_response_def parts_def refusal_def truthy_blob_def inline_data_def
        refusal_message_def text_accessor_def)
  have i3: "interpret_response blocked = Inl (OtherException ''The prompt was blocked.'')"
    by (simp add: interpret_response_def parts_def blocked_def)
  show "edit_image_with_gemini (services_with image_first) ''https://example.com/a.png'' ''brighten'' =
     \<lparr>ok = True, edited_image_data = Some ''data:image/png;base64,UE5H'', error = None\<rparr>"
    by (simp only: edit_of_response i1 sum.case)
  show "edit_image_with_gemini (services_with refusal) ''https://example.com/a.png'' ''brighten'' =
     \<lparr>ok = False, edited_image_data = None,
      error = Some (no_image_message @ [CHR 0x0A] @ ''Reason from AI: I cannot do that.'')\<rparr>"
    by (simp only: edit_of_response i2 sum.case)
  show "edit_image_with_gemini (services_with blocked) ''https://example.com/a.png'' ''brighten'' =
     \<lparr>ok = False, edited_image_data = None, error = Some ''The prompt was blocked.''\<rparr>"
    by (simp only: edit_of_response i3 sum.case ai_exn.case failed_def)
qed

text \<open>
  C8. The claim is broken by the code where the response of the model carries its
  image in a part that is not the first: the response contains inline image data, of
  type \<open>image/png\<close>, and the result is not ok; its error is the fixed message that
  the model returned no image, with no reason, since the accessor of the text raises
  on a part that is no text.
\<close>

theorem image_in_second_part_is_dropped:
  "parts text_then_image =
     Inr [TextPart ''Here is the edited image.'',
          InlineData \<lparr>mime_type = ''image/png'', data = ''PNG''\<rparr>] \<and>
   contains_inline_image text_then_image \<and>
   edit_image_with_gemini (services_with text_then_image) ''https://example.com/a.png''
       ''brighten'' =
     \<lparr>ok = False, edited_image_data = None, error = Some no_image_message\<rparr>"
proof -
  have a: "parts text_then_image =
     Inr [TextPart ''Here is the edited image.'',
          InlineData \<lparr>mime_type = ''image/png'', data = ''PNG''\<rparr>]"
    by (simp add: parts_def text_then_image_def text_part_def image_part_def png_blob_def)
  have b: "contains_inline_image text_then_image"
    by (simp add: contains_inline_image_def a truthy_blob_def inline_data_def)
  have t: "text_accessor text_then_image = Inl (OtherException ''Could not convert part to text.'')"
    by (simp add: text_accessor_def a)
  have i: "interpret_response text_then_image =
     Inr \<lparr>ok = False, edited_image_data = None, error = Some no_image_message\<rparr>"
    by (simp add: interpret_response_def a truthy_blob_def inline_data_def refusal_message_def t)
  have c: "edit_image_with_gemini (services_with text_then_image) ''https://example.com/a.png''
       ''brighten'' =
     \<lparr>ok = False, edited_image_data = None, error = Some no_image_message\<rparr>"
    by (simp only: edit_of_response i sum.case)
  show ?thesis using a b c by simp
qed

lemma edit_when_loading_fails:
  assumes "vision_model sv = Some model"
    and "load_image_bytes sv image_source = Inl e"
  shows "edit_image_with_gemini sv image_source prompt =
     (case e of
        RequestException m \<Rightarrow> failed (''Failed to download image from URL: '' @ m)
      | FileNotFoundError m \<Rightarrow> failed (''Image file not found at path: '' @ image_source)
      | OtherException m \<Rightarrow> failed m)"
  using assms by (simp add: edit_image_with_gemini_def try_body_def)

text \<open>
  C9. With the model configured, a failure to obtain the bytes of the image never
  leaves the operation as an exception: the result is not ok and carries an error
  message. When the source is remote and the download raises a request exception (a
  404 answer is one), the message is \<open>Failed to download image from URL: \<close> followed
  by the text of the exception. When the source is a local path and the file is not
  found, the message is \<open>Image file not found at path: \<close> followed by the path.
\<close>

theorem image_load_failures_are_reported:
  assumes "vision_model sv = Some model"
  shows
    "(is_remote image_source \<and> requests_get sv image_source = Inl (RequestException m) \<longrightarrow>
        edit_image_with_gemini sv image_source prompt =
          \<lparr>ok = False, edited_image_data = None,
           error = Some (''Failed to download image from URL: '' @ m)\<rparr> \<and>
        sublist ''Failed to download''
          (the (error (edit_image_with_gemini sv image_source prompt)))) \<and>
     (\<not> is_remote image_source \<and> read_file sv image_source = Inl (FileNotFoundError m) \<longrightarrow>
        edit_image_with_gemini sv image_source prompt =
          \<lparr>ok = False, edited_image_data = None,
           error = Some (''Image file not found at path: '' @ image_source)\<rparr> \<and>
        sublist ''not found''
          (the (error (edit_image_with_gemini sv image_source prompt)))) \<and>
     (load_image_bytes sv image_source = Inl e \<longrightarrow>
        \<not> ok (edit_image_with_gemini sv image_source prompt) \<and>
        error (edit_image_with_gemini sv image_source prompt) \<noteq> None)"
proof -
  have s1: "sublist ''Failed to download'' (''Failed to download image from URL: '' @ m)"
    unfolding sublist_def
    by (rule exI [of _ "[]"], rule exI [of _ "'' image from URL: '' @ m"]) simp
  have s2: "sublist ''not found'' (''Image file not found at path: '' @ image_source)"
    unfolding sublist_def
    by (rule exI [of _ "''Image file ''"], rule exI [of _ "'' at path: '' @ image_source"]) simp
  have r1: "edit_image_with_gemini sv image_source prompt =
              failed (''Failed to download image from URL: '' @ m)"
    if "is_remote image_source" "requests_get sv image_source = Inl (RequestException m)"
  proof -
    have "load_image_bytes sv image_source = Inl (RequestException m)"
      using that by (simp add: load_image_bytes_def is_remote_def)
    then show ?thesis
      using edit_when_loading_fails [OF assms, of image_source "RequestException m" prompt]
      by simp
  qed
  have r2: "edit_image_with_gemini sv image_source prompt =
              failed (''Image file not found at path: '' @ image_source)"
    if "\<not> is_remote image_source" "read_file sv image_source = Inl (FileNotFoundError m)"
  proof -
    have "load_image_bytes sv image_source = Inl (FileNotFoundError m)"
      using that by (simp add: load_image_bytes_def is_remote_def)
    then show ?thesis
      using edit_when_loading_fails [OF assms, of image_source "FileNotFoundError m" prompt]
      by simp
  qed
  have r3: "\<not> ok (edit_image_with_gemini sv image_source prompt) \<and>
            error (edit_image_with_gemini sv image_source prompt) \<noteq> None"
    if "load_image_bytes sv image_source = Inl e"
    using edit_when_loading_fails [OF assms that, of prompt]
    by (cases e) (simp_all add: failed_def)
  show ?thesis
    using r1 r2 r3 s1 s2 by (simp add: failed_def)
qed

theorem image_load_failures_are_reported_witness:
  "edit_image_with_gemini (services_with refusal) ''https://example.com/missing.png'' ''brighten'' =
     \<lparr>ok = False, edited_image_data = None,
      error = Some ''Failed to download image from URL: 404 Client Error: Not Found''\<rparr> \<and>
   edit_image_with_gemini (services_with refusal) ''static/uploads/gone.png'' ''brighten'' =
     \<lparr>ok = False, edited_image_data = None,
      error = Some ''Image file not found at path: static/uploads/gone.png''\<rparr>"
proof -
  have v: "vision_model (services_with refusal) = Some (\<lambda>prompt img. Inr refusal)"
    by (simp add: services_with_def)
  have a: "is_remote ''https://example.com/missing.png'' \<and>
           requests_get (services_with refusal) ''https://example.com/missing.png'' =
             Inl (RequestException ''404 Client Error: Not Found'')"
    by (simp add: is_remote_def startswith_def services_with_def)
  have b: "\<not> is_remote ''static/uploads/gone.png'' \<and>
           read_file (services_with refusal) ''static/uploads/gone.png'' =
             Inl (FileNotFoundError ''[Errno 2] No such file or directory'')"
    by (simp add: is_remote_def startswith_def services_with_def)
  show ?thesis
    using image_load_failures_are_reported [OF v, of "''https://example.com/missing.png''"
        "''404 Client Error: Not Found''" "''brighten''" "OtherException []"]
      image_load_failures_are_reported [OF v, of "''static/uploads/gone.png''"
        "''[Errno 2] No such file or directory''" "''brighten''" "OtherException []"]
      a b
    by simp
qed

end
